theory Spec2Isabelle
  imports Complex_Main "HOL-Library.Char_ord" "HOL-Library.List_Lexorder"
begin

section \<open>Values shared by both components\<close>

text \<open>
  Keys are Python \<open>str\<close>, stored values are Python \<open>bytes\<close>; both are character lists
  here. A \<open>datetime\<close> is its number of microseconds since the epoch (the resolution of
  Python's \<open>datetime\<close>), so \<open>timedelta(seconds=n)\<close> is \<open>n * 1000000\<close>. The strings
  written by \<open>isoformat()\<close> are read back by \<open>fromisoformat\<close> to the same instant, so a
  stored timestamp is the \<open>datetime\<close> itself.
\<close>

type_synonym bytes = string
type_synonym datetime = int

definition timedelta_seconds :: "int \<Rightarrow> int" where
  "timedelta_seconds n = n * 1000000"

text \<open>
  Every exception the two components can pass to their caller: a failure while decoding
  stored bytes (\<open>json.loads\<close>, a missing field, \<open>fromisoformat\<close>), a failure raised by
  a loader function, and the \<open>OverflowError\<close> of date arithmetic.
\<close>

datatype error = DecodeError | LoaderError | OverflowError

text \<open>
  Python's \<open>datetime\<close> ranges from \<open>0001-01-01T00:00:00\<close> to
  \<open>9999-12-31T23:59:59.999999\<close>, and a \<open>timedelta\<close> holds at most 999999999 days in either
  direction. \<open>timedelta(seconds=n)\<close> raises \<open>OverflowError\<close> beyond that, and so does
  \<open>now + timedelta(seconds=n)\<close> when the sum leaves the range of \<open>datetime\<close>.
\<close>

definition datetime_min :: datetime where
  "datetime_min = - 62135596800000000"

definition datetime_max :: datetime where
  "datetime_max = 253402300799999999"

definition valid_expiry :: "datetime \<Rightarrow> int \<Rightarrow> bool" where
  "valid_expiry now n =
     (- 999999999 \<le> n div 86400 \<and> n div 86400 \<le> 999999999 \<and>
      datetime_min \<le> now + timedelta_seconds n \<and> now + timedelta_seconds n \<le> datetime_max)"

definition datetime_add :: "datetime \<Rightarrow> int \<Rightarrow> error + datetime" where
  "datetime_add now n =
     (if valid_expiry now n then Inr (now + timedelta_seconds n) else Inl OverflowError)"

text \<open>Python's \<open>str.startswith\<close>.\<close>

definition startswith :: "string \<Rightarrow> string \<Rightarrow> bool" where
  "startswith s p = (take (length p) s = p)"

section \<open>The key-value store\<close>

text \<open>
  The store is an ordered map from keys to bytes: a list of pairs, strictly ascending by
  key in the lexicographic order of the keys' bytes.
\<close>

type_synonym store = "(string \<times> bytes) list"

definition store_ok :: "store \<Rightarrow> bool" where
  "store_ok s = sorted_wrt (<) (map fst s)"

text \<open>
  Modelled from the spec: \<open>YellowDB.get\<close> (the package \<open>yellowdb\<close> is not among the
  sources). Section 6: \<open>get(key) -> bytes | absent\<close>.
\<close>

definition kv_get :: "store \<Rightarrow> string \<Rightarrow> bytes option" where
  "kv_get s k = map_of s k"

text \<open>
  Modelled from the spec: \<open>YellowDB.set\<close> and \<open>Batch.put\<close>. Section 6:
  \<open>set(key, value) -> void\<close>; the key keeps its place in the key order.
\<close>

fun kv_set :: "store \<Rightarrow> string \<Rightarrow> bytes \<Rightarrow> store" where
  "kv_set [] k v = [(k, v)]"
| "kv_set ((k', v') # s) k v =
     (if k < k' then (k, v) # (k', v') # s
      else if k = k' then (k, v) # s
      else (k', v') # kv_set s k v)"

text \<open>
  Modelled from the spec: \<open>YellowDB.delete\<close> and \<open>Batch.delete\<close>. Section 6:
  \<open>delete(key) -> void\<close>, idempotent.
\<close>

definition kv_delete :: "store \<Rightarrow> string \<Rightarrow> store" where
  "kv_delete s k = filter (\<lambda>kv. fst kv \<noteq> k) s"

text \<open>
  Modelled from the spec: \<open>YellowDB.scan\<close>. Section 6: the pairs in key order, starting
  at the first key \<open>\<ge> start_key\<close>, unbounded above.
\<close>

definition kv_scan :: "store \<Rightarrow> string \<Rightarrow> (string \<times> bytes) list" where
  "kv_scan s start_key = filter (\<lambda>kv. start_key \<le> fst kv) s"

text \<open>
  Modelled from the spec: \<open>Batch\<close>. Section 6: a sequence of \<open>put\<close>/\<open>delete\<close> operations
  collected within a scoped block and applied atomically when the scope exits.
\<close>

datatype batch_op = BPut string bytes | BDelete string

fun apply_op :: "store \<Rightarrow> batch_op \<Rightarrow> store" where
  "apply_op s (BPut k v) = kv_set s k v"
| "apply_op s (BDelete k) = kv_delete s k"

definition apply_batch :: "store \<Rightarrow> batch_op list \<Rightarrow> store" where
  "apply_batch s ops = foldl apply_op s ops"

text \<open>
  The handle \<open>self.db\<close>: the store's contents together with the mutating calls issued on
  the handle so far, oldest first. A point write is \<open>Set\<close>, a point delete is \<open>Delete\<close>,
  and the exit of a \<open>with Batch(self.db)\<close> block is one \<open>Commit\<close> of its operations.
  Reads (\<open>get\<close>, \<open>scan\<close>, \<open>stats\<close>) issue no mutating call.
\<close>

datatype db_call = Set string bytes | Delete string | Commit "batch_op list"

record database =
  contents :: store
  calls :: "db_call list"

definition db_get :: "database \<Rightarrow> string \<Rightarrow> bytes option" where
  "db_get d k = kv_get (contents d) k"

definition db_set :: "database \<Rightarrow> string \<Rightarrow> bytes \<Rightarrow> database" where
  "db_set d k v = \<lparr>contents = kv_set (contents d) k v, calls = calls d @ [Set k v]\<rparr>"

definition db_delete :: "database \<Rightarrow> string \<Rightarrow> database" where
  "db_delete d k = \<lparr>contents = kv_delete (contents d) k, calls = calls d @ [Delete k]\<rparr>"

definition db_scan :: "database \<Rightarrow> string \<Rightarrow> (string \<times> bytes) list" where
  "db_scan d start_key = kv_scan (contents d) start_key"

definition db_batch :: "database \<Rightarrow> batch_op list \<Rightarrow> database" where
  "db_batch d ops = \<lparr>contents = apply_batch (contents d) ops, calls = calls d @ [Commit ops]\<rparr>"

section \<open>CacheLayer\<close>

text \<open>The metadata dictionary that \<open>set\<close> and \<open>warm_cache\<close> write under \<open>meta:K\<close>.\<close>

record metadata =
  m_key :: string
  m_created_at :: datetime
  m_expires_at :: datetime
  m_ttl :: int
  m_size_bytes :: nat

text \<open>
  The serializer, \<open>json.dumps(x).encode()\<close> and \<open>json.loads(b.decode())\<close>, is a parameter
  of every operation: \<open>'v\<close> is the type of the values the serializer accepts,
  \<open>loads\<close> and \<open>loads_meta\<close> return \<open>None\<close> where decoding the bytes, or reading the
  decoded dictionary's fields, raises.
\<close>

record 'v codec =
  dumps :: "'v \<Rightarrow> bytes"
  loads :: "bytes \<Rightarrow> 'v option"
  dumps_meta :: "metadata \<Rightarrow> bytes"
  loads_meta :: "bytes \<Rightarrow> metadata option"

record cache_layer =
  db :: database
  default_ttl :: int
  hits :: int
  misses :: int
  writes :: int
  evictions :: int

definition cache_prefix :: string where
  "cache_prefix = ''cache:''"

definition metadata_prefix :: string where
  "metadata_prefix = ''meta:''"

definition cache_key :: "string \<Rightarrow> string" where
  "cache_key key = cache_prefix @ key"

definition meta_key :: "string \<Rightarrow> string" where
  "meta_key key = metadata_prefix @ key"

text \<open>
  \<open>ttl or self.default_ttl\<close>: Python's \<open>or\<close> takes the right operand when the left one
  is falsy, and both \<open>None\<close> and \<open>0\<close> are falsy.
\<close>

definition ttl_or_default :: "int option \<Rightarrow> int \<Rightarrow> int" where
  "ttl_or_default ttl dflt =
     (case ttl of None \<Rightarrow> dflt | Some t \<Rightarrow> if t = 0 then dflt else t)"

text \<open>
  \<open>CacheLayer.set\<close>. It reads the clock twice: \<open>now1\<close> is the reading stored as
  \<open>created_at\<close>, \<open>now2\<close> the one \<open>expires_at\<close> is computed from. When that sum raises
  \<open>OverflowError\<close> (line 105), nothing has been written yet and the cache is left as it
  is.
\<close>

definition CacheLayer_set ::
  "'v codec \<Rightarrow> cache_layer \<Rightarrow> string \<Rightarrow> 'v \<Rightarrow> int option \<Rightarrow> datetime \<Rightarrow> datetime \<Rightarrow>
     (error + unit) \<times> cache_layer"
where
  "CacheLayer_set c st key val ttl now1 now2 =
     (let ttl' = ttl_or_default ttl (default_ttl st);
          value_bytes = dumps c val
      in case datetime_add now2 ttl' of
           Inl e \<Rightarrow> (Inl e, st)
         | Inr expires \<Rightarrow>
             (let metadata = \<lparr>m_key = key, m_created_at = now1, m_expires_at = expires,
                              m_ttl = ttl', m_size_bytes = length value_bytes\<rparr>;
                  meta_bytes = dumps_meta c metadata
              in (Inr (),
                  st\<lparr>db := db_batch (db st)
                              [BPut (cache_key key) value_bytes, BPut (meta_key key) meta_bytes],
                     writes := writes st + 1\<rparr>)))"

text \<open>
  The tail of \<open>CacheLayer.get\<close>, from \<open>self.stats["misses"] += 1\<close> on. The loader is
  given by what a call of it does: \<open>None\<close> when no loader was passed, \<open>Some (Inl e)\<close> when
  it raises, \<open>Some (Inr v)\<close> when it returns \<open>v\<close>. An exception of the \<open>set\<close> it calls
  reaches the caller of \<open>get\<close>.
\<close>

definition get_miss ::
  "'v codec \<Rightarrow> cache_layer \<Rightarrow> string \<Rightarrow> (error + 'v) option \<Rightarrow> int option \<Rightarrow>
     datetime \<Rightarrow> datetime \<Rightarrow> (error + 'v option) \<times> cache_layer"
where
  "get_miss c st key loader_fn ttl now1 now2 =
     (let st1 = st\<lparr>misses := misses st + 1\<rparr> in
      case loader_fn of
        None \<Rightarrow> (Inr None, st1)
      | Some (Inl e) \<Rightarrow> (Inl e, st1)
      | Some (Inr val) \<Rightarrow>
          (case CacheLayer_set c st1 key val ttl now1 now2 of
             (Inl e, st2) \<Rightarrow> (Inl e, st2)
           | (Inr u, st2) \<Rightarrow> (Inr (Some val), st2)))"

text \<open>The two point deletes of \<open>CacheLayer.get\<close> (lines 76 and 77).\<close>

definition get_delete_pair :: "cache_layer \<Rightarrow> string \<Rightarrow> cache_layer" where
  "get_delete_pair st key =
     st\<lparr>db := db_delete (db_delete (db st) (cache_key key)) (meta_key key)\<rparr>"

text \<open>
  \<open>CacheLayer.get\<close>. \<open>now\<close> is the clock reading of the expiry test; \<open>now1\<close> and \<open>now2\<close>
  are the readings of the \<open>set\<close> the loader branch calls. \<open>if cached_bytes:\<close> is false
  for an absent record and for empty bytes alike.
\<close>

definition CacheLayer_get ::
  "'v codec \<Rightarrow> cache_layer \<Rightarrow> string \<Rightarrow> (error + 'v) option \<Rightarrow> int option \<Rightarrow>
     datetime \<Rightarrow> datetime \<Rightarrow> datetime \<Rightarrow> (error + 'v option) \<times> cache_layer"
where
  "CacheLayer_get c st key loader_fn ttl now now1 now2 =
     (case db_get (db st) (cache_key key) of
        None \<Rightarrow> get_miss c st key loader_fn ttl now1 now2
      | Some cached_bytes \<Rightarrow>
          if cached_bytes = [] then get_miss c st key loader_fn ttl now1 now2
          else
            (case db_get (db st) (meta_key key) of
               None \<Rightarrow> get_miss c (get_delete_pair st key) key loader_fn ttl now1 now2
             | Some meta_bytes \<Rightarrow>
                 if meta_bytes = [] then
                   get_miss c (get_delete_pair st key) key loader_fn ttl now1 now2
                 else
                   (case loads_meta c meta_bytes of
                      None \<Rightarrow> (Inl DecodeError, st)
                    | Some metadata \<Rightarrow>
                        if now < m_expires_at metadata then
                          (let st1 = st\<lparr>hits := hits st + 1\<rparr> in
                           case loads c cached_bytes of
                             None \<Rightarrow> (Inl DecodeError, st1)
                           | Some val \<Rightarrow> (Inr (Some val), st1))
                        else
                          get_miss c (get_delete_pair st key) key loader_fn ttl now1 now2)))"

text \<open>\<open>CacheLayer.delete\<close>.\<close>

definition CacheLayer_delete :: "cache_layer \<Rightarrow> string \<Rightarrow> cache_layer" where
  "CacheLayer_delete st key =
     st\<lparr>db := db_batch (db st) [BDelete (cache_key key), BDelete (meta_key key)],
        evictions := evictions st + 1\<rparr>"

text \<open>
  The scan loop of \<open>CacheLayer.clear_expired\<close>: it stops at the first key without the
  prefix, and returns the \<open>key\<close> field of every record with \<open>current_time > expires_at\<close>,
  in scan order.
\<close>

fun collect_expired :: "'v codec \<Rightarrow> datetime \<Rightarrow> (string \<times> bytes) list \<Rightarrow> error + string list" where
  "collect_expired c current_time [] = Inr []"
| "collect_expired c current_time ((k, v) # rest) =
     (if \<not> startswith k metadata_prefix then Inr []
      else
        (case loads_meta c v of
           None \<Rightarrow> Inl DecodeError
         | Some metadata \<Rightarrow>
             (case collect_expired c current_time rest of
                Inl e \<Rightarrow> Inl e
              | Inr expired_keys \<Rightarrow>
                  Inr (if current_time > m_expires_at metadata
                       then m_key metadata # expired_keys else expired_keys))))"

definition delete_pairs :: "string list \<Rightarrow> batch_op list" where
  "delete_pairs expired_keys =
     concat (map (\<lambda>original_key. [BDelete (cache_key original_key),
                                    BDelete (meta_key original_key)]) expired_keys)"

text \<open>\<open>CacheLayer.clear_expired\<close>, called when the clock reads \<open>current_time\<close>.\<close>

definition CacheLayer_clear_expired ::
  "'v codec \<Rightarrow> cache_layer \<Rightarrow> datetime \<Rightarrow> (error + int) \<times> cache_layer"
where
  "CacheLayer_clear_expired c st current_time =
     (case collect_expired c current_time (db_scan (db st) metadata_prefix) of
        Inl e \<Rightarrow> (Inl e, st)
      | Inr expired_keys \<Rightarrow>
          if expired_keys \<noteq> [] then
            (Inr (int (length expired_keys)),
             st\<lparr>db := db_batch (db st) (delete_pairs expired_keys),
                evictions := evictions st + int (length expired_keys)\<rparr>)
          else (Inr (int (length expired_keys)), st))"

text \<open>
  \<open>CacheLayer.warm_cache\<close>. The dictionary is the list of its items in iteration order;
  the clock is read once. The expiry instant is computed inside the loop, so it raises
  \<open>OverflowError\<close> only for a dictionary with an item, and then the batch is not
  committed.
\<close>

definition warm_ops ::
  "'v codec \<Rightarrow> int \<Rightarrow> datetime \<Rightarrow> datetime \<Rightarrow> string \<times> 'v \<Rightarrow> batch_op list" where
  "warm_ops c ttl' current_time expires item =
     (let value_bytes = dumps c (snd item);
          metadata = \<lparr>m_key = fst item, m_created_at = current_time,
                      m_expires_at = expires,
                      m_ttl = ttl', m_size_bytes = length value_bytes\<rparr>
      in [BPut (cache_key (fst item)) value_bytes,
          BPut (meta_key (fst item)) (dumps_meta c metadata)])"

definition CacheLayer_warm_cache ::
  "'v codec \<Rightarrow> cache_layer \<Rightarrow> (string \<times> 'v) list \<Rightarrow> int option \<Rightarrow> datetime \<Rightarrow>
     (error + int) \<times> cache_layer"
where
  "CacheLayer_warm_cache c st data_dict ttl current_time =
     (let ttl' = ttl_or_default ttl (default_ttl st) in
      case (if data_dict = [] then Inr current_time else datetime_add current_time ttl') of
        Inl e \<Rightarrow> (Inl e, st)
      | Inr expires \<Rightarrow>
          (Inr (int (length data_dict)),
           st\<lparr>db := db_batch (db st)
                       (concat (map (warm_ops c ttl' current_time expires) data_dict)),
              writes := writes st + int (length data_dict)\<rparr>))"

text \<open>
  \<open>CacheLayer.get_stats\<close>. The scan loop counts the records under the prefix and sums
  their \<open>size_bytes\<close>; \<open>memtable_size\<close> is what \<open>self.db.stats()\<close> reports. The hit rate
  is a Python float; here it is the exact quotient. The source counts a metadata
  dictionary without \<open>size_bytes\<close> as size 0; a decoded record here always has the
  field.
\<close>

record cache_stats =
  cache_hits :: int
  cache_misses :: int
  hit_rate_percent :: real
  total_writes :: int
  total_evictions :: int
  current_entries :: int
  total_cached_size :: int
  stats_memtable_size :: int

fun scan_sizes :: "'v codec \<Rightarrow> (string \<times> bytes) list \<Rightarrow> error + int \<times> int" where
  "scan_sizes c [] = Inr (0, 0)"
| "scan_sizes c ((k, v) # rest) =
     (if \<not> startswith k metadata_prefix then Inr (0, 0)
      else
        (case loads_meta c v of
           None \<Rightarrow> Inl DecodeError
         | Some metadata \<Rightarrow>
             (case scan_sizes c rest of
                Inl e \<Rightarrow> Inl e
              | Inr (cached_entries, total_size) \<Rightarrow>
                  Inr (cached_entries + 1, total_size + int (m_size_bytes metadata)))))"

definition CacheLayer_get_stats ::
  "'v codec \<Rightarrow> cache_layer \<Rightarrow> int \<Rightarrow> (error + cache_stats) \<times> cache_layer"
where
  "CacheLayer_get_stats c st memtable_size =
     (let total_requests = hits st + misses st;
          hit_rate = (if total_requests > 0
                      then real_of_int (hits st) / real_of_int total_requests * 100 else 0)
      in case scan_sizes c (db_scan (db st) metadata_prefix) of
           Inl e \<Rightarrow> (Inl e, st)
         | Inr (cached_entries, total_size) \<Rightarrow>
             (Inr \<lparr>cache_hits = hits st, cache_misses = misses st,
                   hit_rate_percent = hit_rate, total_writes = writes st,
                   total_evictions = evictions st, current_entries = cached_entries,
                   total_cached_size = total_size, stats_memtable_size = memtable_size\<rparr>,
              st))"

section \<open>SessionStore\<close>

text \<open>
  The session dictionary stored under \<open>session:S\<close>; \<open>data\<close> is a dictionary of
  application fields. The serializer of session dictionaries is a parameter, as for the
  cache. \<open>ttl_seconds\<close> is taken within the range of \<open>timedelta\<close>, so the comparisons
  against \<open>timedelta(seconds=self.ttl_seconds)\<close> do not raise.
\<close>

record 'a session =
  s_session_id :: string
  s_user_id :: string
  s_created_at :: datetime
  s_last_accessed :: datetime
  s_data :: "string \<rightharpoonup> 'a"

record 'a session_codec =
  dumps_session :: "'a session \<Rightarrow> bytes"
  loads_session :: "bytes \<Rightarrow> 'a session option"

record session_store =
  session_db :: database
  ttl_seconds :: int

definition session_prefix :: string where
  "session_prefix = ''session:''"

definition session_key :: "string \<Rightarrow> string" where
  "session_key session_id = session_prefix @ session_id"

text \<open>
  \<open>SessionStore.create_session\<close>. \<open>token\<close> is what \<open>secrets.token_urlsafe(32)\<close> returns;
  \<open>data or {}\<close> is the empty dictionary for \<open>None\<close>. The clock is read twice.
\<close>

definition SessionStore_create_session ::
  "'a session_codec \<Rightarrow> session_store \<Rightarrow> string \<Rightarrow> string \<Rightarrow> (string \<rightharpoonup> 'a) option \<Rightarrow>
     datetime \<Rightarrow> datetime \<Rightarrow> string \<times> session_store"
where
  "SessionStore_create_session c st token user_id data now1 now2 =
     (let session_data = \<lparr>s_session_id = token, s_user_id = user_id,
                          s_created_at = now1, s_last_accessed = now2,
                          s_data = (case data of None \<Rightarrow> Map.empty | Some d \<Rightarrow> d)\<rparr>
      in (token,
          st\<lparr>session_db := db_set (session_db st) (session_key token)
                               (dumps_session c session_data)\<rparr>))"

text \<open>\<open>SessionStore.delete_session\<close>.\<close>

definition SessionStore_delete_session :: "session_store \<Rightarrow> string \<Rightarrow> session_store" where
  "SessionStore_delete_session st session_id =
     st\<lparr>session_db := db_delete (session_db st) (session_key session_id)\<rparr>"

text \<open>
  \<open>SessionStore.get_session\<close>. \<open>now1\<close> is the clock reading of the expiry test, \<open>now2\<close>
  the one written as the new \<open>last_accessed\<close>. \<open>if not session_bytes\<close> holds for an
  absent record and for empty bytes.
\<close>

definition SessionStore_get_session ::
  "'a session_codec \<Rightarrow> session_store \<Rightarrow> string \<Rightarrow> datetime \<Rightarrow> datetime \<Rightarrow>
     (error + 'a session option) \<times> session_store"
where
  "SessionStore_get_session c st session_id now1 now2 =
     (case db_get (session_db st) (session_key session_id) of
        None \<Rightarrow> (Inr None, st)
      | Some session_bytes \<Rightarrow>
          if session_bytes = [] then (Inr None, st)
          else
            (case loads_session c session_bytes of
               None \<Rightarrow> (Inl DecodeError, st)
             | Some session_data \<Rightarrow>
                 if now1 - s_last_accessed session_data > timedelta_seconds (ttl_seconds st)
                 then (Inr None, SessionStore_delete_session st session_id)
                 else
                   (let session_data' = session_data\<lparr>s_last_accessed := now2\<rparr> in
                    (Inr (Some session_data'),
                     st\<lparr>session_db := db_set (session_db st) (session_key session_id)
                                          (dumps_session c session_data')\<rparr>))))"

text \<open>
  \<open>SessionStore.update_session\<close>. \<open>now1\<close> and \<open>now2\<close> are the readings of the
  \<open>get_session\<close> it calls, \<open>now3\<close> the reading written afterwards. The dictionary
  \<open>get_session\<close> returns is never empty, so \<open>if not session_data\<close> holds for \<open>None\<close> only.
\<close>

definition SessionStore_update_session ::
  "'a session_codec \<Rightarrow> session_store \<Rightarrow> string \<Rightarrow> (string \<rightharpoonup> 'a) \<Rightarrow>
     datetime \<Rightarrow> datetime \<Rightarrow> datetime \<Rightarrow> (error + bool) \<times> session_store"
where
  "SessionStore_update_session c st session_id data now1 now2 now3 =
     (case SessionStore_get_session c st session_id now1 now2 of
        (Inl e, st') \<Rightarrow> (Inl e, st')
      | (Inr None, st') \<Rightarrow> (Inr False, st')
      | (Inr (Some session_data), st') \<Rightarrow>
          (let session_data' = session_data\<lparr>s_data := s_data session_data ++ data,
                                             s_last_accessed := now3\<rparr>
           in (Inr True,
               st'\<lparr>session_db := db_set (session_db st') (session_key session_id)
                                     (dumps_session c session_data')\<rparr>)))"

text \<open>
  The scan loop of \<open>SessionStore.get_user_sessions\<close>: the \<open>session_id\<close> field of every
  record of the user, in scan order, up to the first key without the prefix.
\<close>

fun collect_user_sessions ::
  "'a session_codec \<Rightarrow> string \<Rightarrow> (string \<times> bytes) list \<Rightarrow> error + string list" where
  "collect_user_sessions c user_id [] = Inr []"
| "collect_user_sessions c user_id ((k, v) # rest) =
     (if \<not> startswith k session_prefix then Inr []
      else
        (case loads_session c v of
           None \<Rightarrow> Inl DecodeError
         | Some session_data \<Rightarrow>
             (case collect_user_sessions c user_id rest of
                Inl e \<Rightarrow> Inl e
              | Inr sessions \<Rightarrow>
                  Inr (if s_user_id session_data = user_id
                       then s_session_id session_data # sessions else sessions))))"

definition SessionStore_get_user_sessions ::
  "'a session_codec \<Rightarrow> session_store \<Rightarrow> string \<Rightarrow> (error + string list) \<times> session_store"
where
  "SessionStore_get_user_sessions c st user_id =
     (collect_user_sessions c user_id (db_scan (session_db st) session_prefix), st)"

text \<open>
  The scan loop of \<open>SessionStore.cleanup_expired_sessions\<close>: the \<open>session_id\<close> field of
  every record with \<open>current_time - last_accessed > timedelta(seconds=ttl_seconds)\<close>.
\<close>

fun collect_expired_sessions ::
  "'a session_codec \<Rightarrow> int \<Rightarrow> datetime \<Rightarrow> (string \<times> bytes) list \<Rightarrow> error + string list" where
  "collect_expired_sessions c ttl current_time [] = Inr []"
| "collect_expired_sessions c ttl current_time ((k, v) # rest) =
     (if \<not> startswith k session_prefix then Inr []
      else
        (case loads_session c v of
           None \<Rightarrow> Inl DecodeError
         | Some session_data \<Rightarrow>
             (case collect_expired_sessions c ttl current_time rest of
                Inl e \<Rightarrow> Inl e
              | Inr expired_sessions \<Rightarrow>
                  Inr (if current_time - s_last_accessed session_data > timedelta_seconds ttl
                       then s_session_id session_data # expired_sessions
                       else expired_sessions))))"

text \<open>\<open>SessionStore.cleanup_expired_sessions\<close>, called when the clock reads \<open>current_time\<close>.\<close>

definition SessionStore_cleanup_expired_sessions ::
  "'a session_codec \<Rightarrow> session_store \<Rightarrow> datetime \<Rightarrow> (error + int) \<times> session_store"
where
  "SessionStore_cleanup_expired_sessions c st current_time =
     (case collect_expired_sessions c (ttl_seconds st) current_time
             (db_scan (session_db st) session_prefix) of
        Inl e \<Rightarrow> (Inl e, st)
      | Inr expired_sessions \<Rightarrow>
          if expired_sessions \<noteq> [] then
            (Inr (int (length expired_sessions)),
             st\<lparr>session_db := db_batch (session_db st)
                                  (map (\<lambda>session_id. BDelete (session_key session_id))
                                     expired_sessions)\<rparr>)
          else (Inr (int (length expired_sessions)), st))"

text \<open>
  \<open>SessionStore.get_stats\<close>: the number of scanned keys with the prefix (this scan has no
  \<open>break\<close>); \<open>memtable_size\<close> and \<open>cache_entries\<close> are what \<open>self.db.stats()\<close> reports.
\<close>

record session_stats =
  total_sessions :: int
  session_memtable_size :: int
  session_cache_entries :: int

definition SessionStore_get_stats ::
  "session_store \<Rightarrow> int \<Rightarrow> int \<Rightarrow> session_stats \<times> session_store"
where
  "SessionStore_get_stats st memtable_size cache_entries =
     (let total = int (length (filter (\<lambda>kv. startswith (fst kv) session_prefix)
                                 (db_scan (session_db st) session_prefix)))
      in (\<lparr>total_sessions = total, session_memtable_size = memtable_size,
            session_cache_entries = cache_entries\<rparr>, st))"

section \<open>What the properties assume of the serializer and of the store\<close>

text \<open>
  The serializer returns a value's bytes, never empty, and reads them back to the value
  (\<open>json.dumps\<close> of any value is at least one character long).
\<close>

definition value_round_trip :: "'v codec \<Rightarrow> 'v \<Rightarrow> bool" where
  "value_round_trip c v = (dumps c v \<noteq> [] \<and> loads c (dumps c v) = Some v)"

definition meta_round_trip :: "'v codec \<Rightarrow> metadata \<Rightarrow> bool" where
  "meta_round_trip c m = (dumps_meta c m \<noteq> [] \<and> loads_meta c (dumps_meta c m) = Some m)"

text \<open>
  The data model of the session store: the record stored under \<open>session:S\<close> carries
  \<open>session_id = S\<close>. \<open>create_session\<close> writes records of this shape, and \<open>get_session\<close>
  and \<open>update_session\<close> write a record back under the key they read it from.
\<close>

definition sessions_keyed :: "'a session_codec \<Rightarrow> store \<Rightarrow> bool" where
  "sessions_keyed c s =
     (\<forall>kv \<in> set s. \<forall>session_data.
        startswith (fst kv) session_prefix \<longrightarrow> loads_session c (snd kv) = Some session_data \<longrightarrow>
        fst kv = session_key (s_session_id session_data))"

definition session_round_trip :: "'a session_codec \<Rightarrow> 'a session \<Rightarrow> bool" where
  "session_round_trip c sd = (loads_session c (dumps_session c sd) = Some sd)"

section \<open>Concrete inputs\<close>

text \<open>
  A serializer on a small universe, for evaluating the operations on concrete stores:
  values are strings, written behind the letter \<open>s\<close>; the bytes \<open>M\<close> are the
  serialized metadata of one entry \<open>k\<close>, created at 0 with a time-to-live of one second.
\<close>

definition toy_meta :: metadata where
  "toy_meta = \<lparr>m_key = ''k'', m_created_at = 0, m_expires_at = 1000000,
                m_ttl = 1, m_size_bytes = 2\<rparr>"

definition toy_codec :: "string codec" where
  "toy_codec =
     \<lparr>dumps = (\<lambda>v. CHR ''s'' # v),
      loads = (\<lambda>b. case b of [] \<Rightarrow> None | x # r \<Rightarrow> if x = CHR ''s'' then Some r else None),
      dumps_meta = (\<lambda>m. if m = toy_meta then ''M'' else ''?''),
      loads_meta = (\<lambda>b. if b = ''M'' then Some toy_meta else None)\<rparr>"

definition empty_cache :: cache_layer where
  "empty_cache = \<lparr>db = \<lparr>contents = [], calls = []\<rparr>, default_ttl = 3600,
                  hits = 0, misses = 0, writes = 0, evictions = 0\<rparr>"

text \<open>The cache after \<open>set("k", "v", ttl=1)\<close> at time 0, with its call log cleared.\<close>

definition toy_cache :: cache_layer where
  "toy_cache = \<lparr>db = \<lparr>contents = [(''cache:k'', ''sv''), (''meta:k'', ''M'')], calls = []\<rparr>,
                default_ttl = 3600, hits = 0, misses = 0, writes = 1, evictions = 0\<rparr>"

text \<open>A store holding the metadata record of \<open>k\<close> without its value record.\<close>

definition orphan_cache :: cache_layer where
  "orphan_cache = \<lparr>db = \<lparr>contents = [(''meta:k'', ''M'')], calls = []\<rparr>,
                   default_ttl = 3600, hits = 0, misses = 0, writes = 1, evictions = 0\<rparr>"

text \<open>A store whose value record of \<open>k\<close> holds bytes the serializer does not read.\<close>

definition corrupt_cache :: cache_layer where
  "corrupt_cache = \<lparr>db = \<lparr>contents = [(''cache:k'', ''x''), (''meta:k'', ''M'')], calls = []\<rparr>,
                    default_ttl = 3600, hits = 0, misses = 0, writes = 1, evictions = 0\<rparr>"

text \<open>
  A serializer that behaves like \<open>json\<close> on tuples: a value is a string, a list or a
  tuple (of one-character strings); a tuple is written as an array, exactly as the list
  of its items, and an array is read back as a list. The bytes \<open>M\<close> are the metadata of
  an entry \<open>k\<close> whose value takes three bytes.
\<close>

datatype py_value = PyStr string | PyList string | PyTuple string

definition py_meta :: metadata where
  "py_meta = \<lparr>m_key = ''k'', m_created_at = 0, m_expires_at = 1000000,
               m_ttl = 1, m_size_bytes = 3\<rparr>"

definition py_codec :: "py_value codec" where
  "py_codec =
     \<lparr>dumps = (\<lambda>v. case v of PyStr s \<Rightarrow> CHR ''s'' # s
                          | PyList xs \<Rightarrow> CHR ''['' # xs
                          | PyTuple xs \<Rightarrow> CHR ''['' # xs),
      loads = (\<lambda>b. case b of [] \<Rightarrow> None
                          | x # r \<Rightarrow> if x = CHR ''s'' then Some (PyStr r)
                                    else if x = CHR ''['' then Some (PyList r) else None),
      dumps_meta = (\<lambda>m. if m = py_meta then ''M'' else ''?''),
      loads_meta = (\<lambda>b. if b = ''M'' then Some py_meta else None)\<rparr>"

text \<open>
  Two sessions of a store with \<open>ttl_seconds = 10\<close>: \<open>a\<close>, last accessed at 0, and \<open>b\<close>, last
  accessed at 20 seconds. The serializer of the small universe writes a session as \<open>S:\<close>
  followed by its id, and reads \<open>S:a\<close> and \<open>S:b\<close> as these two sessions.
\<close>

definition toy_session_a :: "string session" where
  "toy_session_a = \<lparr>s_session_id = ''a'', s_user_id = ''u'', s_created_at = 0,
                     s_last_accessed = 0, s_data = [''ip'' \<mapsto> ''1'']\<rparr>"

definition toy_session_b :: "string session" where
  "toy_session_b = \<lparr>s_session_id = ''b'', s_user_id = ''u'', s_created_at = 20000000,
                     s_last_accessed = 20000000, s_data = Map.empty\<rparr>"

definition toy_session_codec :: "string session_codec" where
  "toy_session_codec =
     \<lparr>dumps_session = (\<lambda>session_data. ''S:'' @ s_session_id session_data),
      loads_session = map_of [(''S:a'', toy_session_a), (''S:b'', toy_session_b)]\<rparr>"

definition toy_sessions :: session_store where
  "toy_sessions = \<lparr>session_db = \<lparr>contents = [(''session:a'', ''S:a''), (''session:b'', ''S:b'')],
                                   calls = []\<rparr>,
                   ttl_seconds = 10\<rparr>"

section \<open>Facts about the store\<close>

lemma kv_get_kv_set: "kv_get (kv_set s k v) k' = (if k' = k then Some v else kv_get s k')"
  by (induction s) (auto simp: kv_get_def)

lemma kv_get_kv_delete: "kv_get (kv_delete s k) k' = (if k' = k then None else kv_get s k')"
  by (induction s) (auto simp: kv_get_def kv_delete_def)

lemma apply_batch_Nil: "apply_batch s [] = s"
  by (simp add: apply_batch_def)

lemma apply_batch_Cons: "apply_batch s (x # xs) = apply_batch (apply_op s x) xs"
  by (simp add: apply_batch_def)

lemma cache_key_neq_meta_key: "cache_key k \<noteq> meta_key k'"
  by (simp add: cache_key_def meta_key_def cache_prefix_def metadata_prefix_def)

text \<open>Every write keeps the keys of the store strictly ascending.\<close>

lemma keys_kv_set: "fst ` set (kv_set s k v) = insert k (fst ` set s)"
proof (induction s)
  case Nil
  then show ?case by simp
next
  case (Cons x s)
  obtain k' v' where "x = (k', v')" by (cases x)
  with Cons.IH show ?case by (simp add: insert_commute)
qed

lemma set_kv_set: "set (kv_set s k v) \<subseteq> insert (k, v) (set s)"
proof (induction s)
  case Nil
  then show ?case by simp
next
  case (Cons x s)
  obtain k' v' where "x = (k', v')" by (cases x)
  with Cons.IH show ?case by auto
qed

lemma set_kv_delete: "set (kv_delete s k) \<subseteq> set s"
  by (auto simp: kv_delete_def)

lemma store_ok_kv_set: "store_ok s \<Longrightarrow> store_ok (kv_set s k v)"
proof (induction s)
  case Nil
  then show ?case by (simp add: store_ok_def)
next
  case (Cons x s)
  obtain k' v' where x: "x = (k', v')" by (cases x)
  from Cons.prems x have tl: "store_ok s" and hd: "\<forall>y \<in> fst ` set s. k' < y"
    by (auto simp: store_ok_def)
  show ?case
  proof (cases "k < k'")
    case True
    with Cons.prems x hd show ?thesis by (auto simp: store_ok_def)
  next
    case False
    show ?thesis
    proof (cases "k = k'")
      case True
      with Cons.prems x show ?thesis by (auto simp: store_ok_def)
    next
      case neq: False
      with False have "k' < k" by simp
      with hd have "\<forall>y \<in> fst ` set (kv_set s k v). k' < y"
        by (simp add: keys_kv_set)
      with Cons.IH [OF tl] False neq x show ?thesis
        by (auto simp: store_ok_def)
    qed
  qed
qed

lemma store_ok_kv_delete: "store_ok s \<Longrightarrow> store_ok (kv_delete s k)"
  by (induction s) (auto simp: store_ok_def kv_delete_def)

lemma store_ok_apply_batch: "store_ok s \<Longrightarrow> store_ok (apply_batch s ops)"
proof (induction ops arbitrary: s)
  case Nil
  then show ?case by (simp add: apply_batch_Nil)
next
  case (Cons x ops)
  then show ?case
    by (cases x) (simp_all add: apply_batch_Cons store_ok_kv_set store_ok_kv_delete)
qed

section \<open>CacheLayer: the round trip of set and get\<close>

text \<open>
  C1, as the code has it. For every key, every value that the serializer reads back
  unchanged, and every \<open>ttl > 0\<close> whose expiry instant is a valid \<open>datetime\<close>:
  \<open>set(key, value, ttl)\<close> returns, and \<open>get(key)\<close> with no loader called next, at any time
  \<open>now < created_at + ttl\<close>, returns the value unchanged and records a hit.
  \<open>created_at\<close> is the first clock reading of \<open>set\<close>; the second one, which \<open>expires_at\<close>
  is computed from, is not earlier.
\<close>

theorem set_then_get_round_trip:
  assumes "0 < ttl" and "now1 \<le> now2" and "now < now1 + timedelta_seconds ttl"
    and "valid_expiry now2 ttl"
    and "value_round_trip c v"
    and "meta_round_trip c \<lparr>m_key = key, m_created_at = now1,
            m_expires_at = now2 + timedelta_seconds ttl, m_ttl = ttl,
            m_size_bytes = length (dumps c v)\<rparr>"
  shows "fst (CacheLayer_set c st key v (Some ttl) now1 now2) = Inr ()
       \<and> CacheLayer_get c (snd (CacheLayer_set c st key v (Some ttl) now1 now2))
            key None ttl' now ta tb
         = (Inr (Some v),
            (snd (CacheLayer_set c st key v (Some ttl) now1 now2))\<lparr>hits := hits st + 1\<rparr>)"
  using assms
  by (simp add: CacheLayer_get_def CacheLayer_set_def datetime_add_def db_get_def db_batch_def
      apply_batch_Cons apply_batch_Nil kv_get_kv_set cache_key_neq_meta_key
      cache_key_neq_meta_key[symmetric] ttl_or_default_def value_round_trip_def
      meta_round_trip_def Let_def)

theorem set_then_get_round_trip_witness:
  "fst (CacheLayer_set toy_codec empty_cache ''k'' ''v'' (Some 1) 0 0) = Inr ()
   \<and> fst (CacheLayer_get toy_codec
            (snd (CacheLayer_set toy_codec empty_cache ''k'' ''v'' (Some 1) 0 0))
            ''k'' None None 999999 0 0) = Inr (Some ''v'')
   \<and> hits (snd (CacheLayer_get toy_codec
                    (snd (CacheLayer_set toy_codec empty_cache ''k'' ''v'' (Some 1) 0 0))
                    ''k'' None None 999999 0 0)) = hits empty_cache + 1"
proof -
  have v: "value_round_trip toy_codec ''v''"
    by (simp add: value_round_trip_def toy_codec_def)
  have m: "meta_round_trip toy_codec \<lparr>m_key = ''k'', m_created_at = 0,
             m_expires_at = 0 + timedelta_seconds 1, m_ttl = 1,
             m_size_bytes = length (dumps toy_codec ''v'')\<rparr>"
    by (simp add: meta_round_trip_def toy_codec_def toy_meta_def timedelta_seconds_def)
  have t: "(999999::int) < 0 + timedelta_seconds 1"
    by (simp add: timedelta_seconds_def)
  have r: "valid_expiry 0 1"
    by (simp add: valid_expiry_def timedelta_seconds_def datetime_min_def datetime_max_def)
  have p: "(0::int) < 1" and q: "(0::int) \<le> 0"
    by simp_all
  show ?thesis
    using set_then_get_round_trip [OF p q t r v m, where st = empty_cache and ttl' = None
        and ta = 0 and tb = 0]
    by (simp add: empty_cache_def)
qed

text \<open>
  The claim C1 as stated fails for a value the serializer does not read back unchanged:
  a tuple comes back from the cache as a list. It also fails for a \<open>ttl\<close> that carries
  the expiry instant past the year 9999: \<open>set\<close> raises \<open>OverflowError\<close> and writes
  nothing.
\<close>

theorem set_then_get_changes_tuple:
  "fst (CacheLayer_set py_codec empty_cache ''k'' (PyTuple ''12'') (Some 1) 0 0) = Inr ()
   \<and> fst (CacheLayer_get py_codec
            (snd (CacheLayer_set py_codec empty_cache ''k'' (PyTuple ''12'') (Some 1) 0 0))
            ''k'' None None 999999 0 0) = Inr (Some (PyList ''12''))
   \<and> PyList ''12'' \<noteq> PyTuple ''12''
   \<and> CacheLayer_set toy_codec empty_cache ''k'' ''v'' (Some 300000000000) 0 0
     = (Inl OverflowError, empty_cache)"
  by (simp add: CacheLayer_get_def CacheLayer_set_def datetime_add_def valid_expiry_def
      datetime_min_def datetime_max_def timedelta_seconds_def ttl_or_default_def
      db_get_def db_batch_def apply_batch_def kv_get_def py_codec_def py_meta_def
      toy_codec_def empty_cache_def cache_key_def meta_key_def cache_prefix_def
      metadata_prefix_def Let_def)

section \<open>CacheLayer: evaluating the operations\<close>

lemmas toy_defs = toy_cache_def toy_codec_def toy_meta_def empty_cache_def
  cache_key_def meta_key_def cache_prefix_def metadata_prefix_def

lemmas get_defs = CacheLayer_get_def get_miss_def get_delete_pair_def db_get_def
  db_delete_def

lemma scan_toy_cache: "db_scan (db toy_cache) metadata_prefix = [(''meta:k'', ''M'')]"
  by (simp add: db_scan_def kv_scan_def toy_cache_def metadata_prefix_def)

section \<open>CacheLayer: what get does on a miss\<close>

lemma get_miss_no_loader:
  "get_miss c st key None ttl na nb = (Inr None, st\<lparr>misses := misses st + 1\<rparr>)"
  by (simp add: get_miss_def)

lemma get_miss_loader_raises:
  "get_miss c st key (Some (Inl e)) ttl na nb = (Inl e, st\<lparr>misses := misses st + 1\<rparr>)"
  by (simp add: get_miss_def)

lemma get_miss_loader_returns:
  assumes "d = ttl_or_default ttl (default_ttl st)"
    and "valid_expiry nb d"
  shows "get_miss c st key (Some (Inr val)) ttl na nb =
     (Inr (Some val),
      st\<lparr>db := \<lparr>contents = kv_set (kv_set (contents (db st)) (cache_key key) (dumps c val))
                               (meta_key key)
                               (dumps_meta c \<lparr>m_key = key, m_created_at = na,
                                  m_expires_at = nb + timedelta_seconds d, m_ttl = d,
                                  m_size_bytes = length (dumps c val)\<rparr>),
                calls = calls (db st) @
                  [Commit [BPut (cache_key key) (dumps c val),
                           BPut (meta_key key)
                             (dumps_meta c \<lparr>m_key = key, m_created_at = na,
                                m_expires_at = nb + timedelta_seconds d, m_ttl = d,
                                m_size_bytes = length (dumps c val)\<rparr>)]]\<rparr>,
         misses := misses st + 1, writes := writes st + 1\<rparr>)"
  using assms
  by (simp add: get_miss_def CacheLayer_set_def datetime_add_def db_batch_def
      apply_batch_Cons apply_batch_Nil Let_def)

lemma get_miss_loader_overflow:
  assumes "d = ttl_or_default ttl (default_ttl st)"
    and "\<not> valid_expiry nb d"
  shows "get_miss c st key (Some (Inr val)) ttl na nb
         = (Inl OverflowError, st\<lparr>misses := misses st + 1\<rparr>)"
  using assms
  by (simp add: get_miss_def CacheLayer_set_def datetime_add_def Let_def)

lemma get_value_absent:
  "db_get (db st) (cache_key key) = None \<or> db_get (db st) (cache_key key) = Some [] \<Longrightarrow>
   CacheLayer_get c st key loader_fn ttl now na nb = get_miss c st key loader_fn ttl na nb"
  by (auto simp: CacheLayer_get_def)

lemma get_delete_pair_eq:
  "get_delete_pair st key =
     st\<lparr>db := \<lparr>contents = kv_delete (kv_delete (contents (db st)) (cache_key key)) (meta_key key),
               calls = calls (db st) @ [Delete (cache_key key), Delete (meta_key key)]\<rparr>\<rparr>"
  by (simp add: get_delete_pair_def db_delete_def)

lemma get_value_stale:
  assumes "db_get (db st) (cache_key key) = Some vb" and "vb \<noteq> []"
    and "db_get (db st) (meta_key key) = None \<or> db_get (db st) (meta_key key) = Some [] \<or>
         (\<exists>mb m. db_get (db st) (meta_key key) = Some mb \<and> mb \<noteq> [] \<and>
                 loads_meta c mb = Some m \<and> m_expires_at m \<le> now)"
  shows "CacheLayer_get c st key loader_fn ttl now na nb =
         get_miss c (get_delete_pair st key) key loader_fn ttl na nb"
  using assms by (auto simp: CacheLayer_get_def)

text \<open>
  C4, as the code has it. \<open>get\<close> decides hit versus miss from the value record first.
  When \<open>cache:key\<close> is absent or empty, whatever \<open>meta:key\<close> holds, \<open>get\<close> issues no delete
  and goes on from the store as it is (\<open>s\<close> below is the cache itself). When the value
  record is present and the metadata record is absent, empty or expired
  (\<open>expires_at \<le> now\<close>), \<open>get\<close> first deletes \<open>cache:key\<close> and \<open>meta:key\<close> by two point
  deletes (\<open>s\<close> is the cache after them). In both cases it then records one miss and
  applies the loader branch: with no loader it returns absent; a loader that raises
  passes its exception on; the value a loader returns is written by one batch of both
  records, with the time-to-live \<open>d\<close> that \<open>set\<close> takes, one write is counted and the
  value is returned, unless the expiry instant is no valid \<open>datetime\<close>, when
  \<open>OverflowError\<close> reaches the caller and nothing is written. A value record that does
  not decode is not a miss: under unexpired metadata the decoding error reaches the
  caller and the store is left as it is.
\<close>

theorem get_decides_from_value_record:
  "(((db_get (db st) (cache_key key) = None \<or> db_get (db st) (cache_key key) = Some []) \<and>
      s = st
    \<or> db_get (db st) (cache_key key) = Some vb \<and> vb \<noteq> [] \<and>
      (db_get (db st) (meta_key key) = None \<or> db_get (db st) (meta_key key) = Some [] \<or>
       (\<exists>mb m. db_get (db st) (meta_key key) = Some mb \<and> mb \<noteq> [] \<and>
               loads_meta c mb = Some m \<and> m_expires_at m \<le> now)) \<and>
      s = st\<lparr>db := \<lparr>contents = kv_delete (kv_delete (contents (db st)) (cache_key key))
                                         (meta_key key),
                           calls = calls (db st) @
                                     [Delete (cache_key key), Delete (meta_key key)]\<rparr>\<rparr>)
    \<and> d = (case ttl of None \<Rightarrow> default_ttl st | Some t \<Rightarrow> if t = 0 then default_ttl st else t)
    \<longrightarrow>
      (CacheLayer_get c st key None ttl now na nb = (Inr None, s\<lparr>misses := misses st + 1\<rparr>))
      \<and> (CacheLayer_get c st key (Some (Inl e)) ttl now na nb
           = (Inl e, s\<lparr>misses := misses st + 1\<rparr>))
      \<and> (valid_expiry nb d \<longrightarrow>
          CacheLayer_get c st key (Some (Inr val)) ttl now na nb =
            (Inr (Some val),
             s\<lparr>db := \<lparr>contents = kv_set (kv_set (contents (db s)) (cache_key key) (dumps c val))
                               (meta_key key)
                               (dumps_meta c \<lparr>m_key = key, m_created_at = na,
                                  m_expires_at = nb + timedelta_seconds d, m_ttl = d,
                                  m_size_bytes = length (dumps c val)\<rparr>),
                      calls = calls (db s) @
                        [Commit [BPut (cache_key key) (dumps c val),
                                 BPut (meta_key key)
                                   (dumps_meta c \<lparr>m_key = key, m_created_at = na,
                                  m_expires_at = nb + timedelta_seconds d, m_ttl = d,
                                  m_size_bytes = length (dumps c val)\<rparr>)]]\<rparr>,
               misses := misses st + 1, writes := writes st + 1\<rparr>))
      \<and> (\<not> valid_expiry nb d \<longrightarrow>
          CacheLayer_get c st key (Some (Inr val)) ttl now na nb
            = (Inl OverflowError, s\<lparr>misses := misses st + 1\<rparr>)))
   \<and> (db_get (db st) (cache_key key) = Some vb \<and> vb \<noteq> [] \<and> loads c vb = None \<and>
        db_get (db st) (meta_key key) = Some mb \<and> mb \<noteq> [] \<and>
        loads_meta c mb = Some m \<and> now < m_expires_at m \<longrightarrow>
      fst (CacheLayer_get c st key loader_fn ttl now na nb) = Inl DecodeError \<and>
      db (snd (CacheLayer_get c st key loader_fn ttl now na nb)) = db st)"
proof (intro conjI impI)
  assume a: "((db_get (db st) (cache_key key) = None \<or> db_get (db st) (cache_key key) = Some []) \<and>
      s = st
    \<or> db_get (db st) (cache_key key) = Some vb \<and> vb \<noteq> [] \<and>
      (db_get (db st) (meta_key key) = None \<or> db_get (db st) (meta_key key) = Some [] \<or>
       (\<exists>mb m. db_get (db st) (meta_key key) = Some mb \<and> mb \<noteq> [] \<and>
               loads_meta c mb = Some m \<and> m_expires_at m \<le> now)) \<and>
      s = st\<lparr>db := \<lparr>contents = kv_delete (kv_delete (contents (db st)) (cache_key key))
                                         (meta_key key),
                           calls = calls (db st) @
                                     [Delete (cache_key key), Delete (meta_key key)]\<rparr>\<rparr>)
    \<and> d = (case ttl of None \<Rightarrow> default_ttl st | Some t \<Rightarrow> if t = 0 then default_ttl st else t)"
  have g: "\<And>l. CacheLayer_get c st key l ttl now na nb = get_miss c s key l ttl na nb"
  proof -
    fix l
    from a consider
      (absent) "db_get (db st) (cache_key key) = None \<or> db_get (db st) (cache_key key) = Some []"
        "s = st"
    | (stale) "db_get (db st) (cache_key key) = Some vb" "vb \<noteq> []"
        "db_get (db st) (meta_key key) = None \<or> db_get (db st) (meta_key key) = Some [] \<or>
         (\<exists>mb m. db_get (db st) (meta_key key) = Some mb \<and> mb \<noteq> [] \<and>
                 loads_meta c mb = Some m \<and> m_expires_at m \<le> now)"
        "s = get_delete_pair st key"
      by (auto simp: get_delete_pair_eq)
    then show "CacheLayer_get c st key l ttl now na nb = get_miss c s key l ttl na nb"
    proof cases
      case absent
      then show ?thesis by (simp add: get_value_absent)
    next
      case stale
      then show ?thesis by (simp add: get_value_stale)
    qed
  qed
  from a have s: "misses s = misses st" "writes s = writes st" "default_ttl s = default_ttl st"
    by auto
  from a s have d: "d = ttl_or_default ttl (default_ttl s)"
    by (cases ttl) (simp_all add: ttl_or_default_def)
  show "CacheLayer_get c st key None ttl now na nb = (Inr None, s\<lparr>misses := misses st + 1\<rparr>)"
    by (simp add: g get_miss_no_loader s)
  show "CacheLayer_get c st key (Some (Inl e)) ttl now na nb
           = (Inl e, s\<lparr>misses := misses st + 1\<rparr>)"
    by (simp add: g get_miss_loader_raises s)
  {
    assume "valid_expiry nb d"
    then show "CacheLayer_get c st key (Some (Inr val)) ttl now na nb =
            (Inr (Some val),
             s\<lparr>db := \<lparr>contents = kv_set (kv_set (contents (db s)) (cache_key key) (dumps c val))
                               (meta_key key)
                               (dumps_meta c \<lparr>m_key = key, m_created_at = na,
                                  m_expires_at = nb + timedelta_seconds d, m_ttl = d,
                                  m_size_bytes = length (dumps c val)\<rparr>),
                      calls = calls (db s) @
                        [Commit [BPut (cache_key key) (dumps c val),
                                 BPut (meta_key key)
                                   (dumps_meta c \<lparr>m_key = key, m_created_at = na,
                                  m_expires_at = nb + timedelta_seconds d, m_ttl = d,
                                  m_size_bytes = length (dumps c val)\<rparr>)]]\<rparr>,
               misses := misses st + 1, writes := writes st + 1\<rparr>)"
      by (simp add: g get_miss_loader_returns [OF d] s)
  }
  {
    assume "\<not> valid_expiry nb d"
    then show "CacheLayer_get c st key (Some (Inr val)) ttl now na nb
            = (Inl OverflowError, s\<lparr>misses := misses st + 1\<rparr>)"
      by (simp add: g get_miss_loader_overflow [OF d] s)
  }
next
  assume a: "db_get (db st) (cache_key key) = Some vb \<and> vb \<noteq> [] \<and> loads c vb = None \<and>
        db_get (db st) (meta_key key) = Some mb \<and> mb \<noteq> [] \<and>
        loads_meta c mb = Some m \<and> now < m_expires_at m"
  then show "fst (CacheLayer_get c st key loader_fn ttl now na nb) = Inl DecodeError"
    by (simp add: CacheLayer_get_def)
  from a show "db (snd (CacheLayer_get c st key loader_fn ttl now na nb)) = db st"
    by (simp add: CacheLayer_get_def)
qed

theorem get_decides_from_value_record_witness:
  "CacheLayer_get toy_codec orphan_cache ''k'' (Some (Inr ''w'')) (Some 1) 0 0 0
     = (Inr (Some ''w''),
        orphan_cache\<lparr>db := \<lparr>contents = [(''cache:k'', ''sw''), (''meta:k'', ''M'')],
                            calls = [Commit [BPut ''cache:k'' ''sw'', BPut ''meta:k'' ''M'']]\<rparr>,
                     misses := 1, writes := 2\<rparr>)
   \<and> CacheLayer_get toy_codec orphan_cache ''k'' (Some (Inr ''w'')) (Some 300000000000) 0 0 0
     = (Inl OverflowError, orphan_cache\<lparr>misses := 1\<rparr>)
   \<and> CacheLayer_get toy_codec toy_cache ''k'' (Some (Inl LoaderError)) None 2000000 0 0
     = (Inl LoaderError,
        toy_cache\<lparr>db := \<lparr>contents = [], calls = [Delete ''cache:k'', Delete ''meta:k'']\<rparr>,
                  misses := 1\<rparr>)
   \<and> CacheLayer_get toy_codec toy_cache ''k'' None None 2000000 0 0
     = (Inr None,
        toy_cache\<lparr>db := \<lparr>contents = [], calls = [Delete ''cache:k'', Delete ''meta:k'']\<rparr>,
                  misses := 1\<rparr>)
   \<and> fst (CacheLayer_get toy_codec corrupt_cache ''k'' None None 0 0 0) = Inl DecodeError"
proof -
  have ok: "valid_expiry 0 1"
    by (simp add: valid_expiry_def timedelta_seconds_def datetime_min_def datetime_max_def)
  have over: "\<not> valid_expiry 0 300000000000"
    by (simp add: valid_expiry_def timedelta_seconds_def datetime_min_def datetime_max_def)
  show ?thesis
    using get_decides_from_value_record [where st = orphan_cache and key = "''k''"
        and c = toy_codec and ttl = "Some 1" and now = 0 and na = 0 and nb = 0
        and s = orphan_cache and d = 1 and val = "''w''"]
      get_decides_from_value_record [where st = orphan_cache and key = "''k''"
        and c = toy_codec and ttl = "Some 300000000000" and now = 0 and na = 0 and nb = 0
        and s = orphan_cache and d = 300000000000 and val = "''w''"]
      get_decides_from_value_record [where st = toy_cache and key = "''k''"
        and c = toy_codec and ttl = None and now = 2000000 and na = 0 and nb = 0
        and vb = "''sv''" and d = 3600 and e = LoaderError
        and s = "toy_cache\<lparr>db := \<lparr>contents = [],
                   calls = [Delete ''cache:k'', Delete ''meta:k'']\<rparr>\<rparr>"]
      get_decides_from_value_record [where st = corrupt_cache and key = "''k''"
        and c = toy_codec and loader_fn = None and ttl = None and now = 0
        and na = 0 and nb = 0 and vb = "''x''" and mb = "''M''" and m = toy_meta]
      ok over
    by (simp add: db_get_def kv_get_def kv_delete_def orphan_cache_def corrupt_cache_def
        toy_defs timedelta_seconds_def)
qed

text \<open>
  The claim C4 as stated fails on a store that holds \<open>meta:k\<close> without \<open>cache:k\<close>: \<open>get\<close>
  reports the miss and the metadata record is still there afterwards.
\<close>

theorem get_keeps_orphan_metadata:
  "db_get (db orphan_cache) (cache_key ''k'') = None
   \<and> db_get (db orphan_cache) (meta_key ''k'') = Some ''M''
   \<and> CacheLayer_get toy_codec orphan_cache ''k'' None None 0 0 0
     = (Inr None, orphan_cache\<lparr>misses := 1\<rparr>)
   \<and> db_get (db (snd (CacheLayer_get toy_codec orphan_cache ''k'' None None 0 0 0)))
        (meta_key ''k'') = Some ''M''"
  by (simp add: get_defs kv_get_def orphan_cache_def toy_defs)

text \<open>
  C8, as the code has it. \<open>get\<close> with no loader returns absent on an absent and on an
  expired entry. On an absent entry (no value record, or an empty one) it issues no call
  on the store; on an expired entry it issues the two point deletes of \<open>cache:key\<close> and
  \<open>meta:key\<close>, and no put.
\<close>

theorem get_without_loader_writes:
  "((db_get (db st) (cache_key key) = None \<or> db_get (db st) (cache_key key) = Some []) \<longrightarrow>
      CacheLayer_get c st key None ttl now na nb = (Inr None, st\<lparr>misses := misses st + 1\<rparr>))
   \<and> (db_get (db st) (cache_key key) = Some vb \<and> vb \<noteq> [] \<and>
        db_get (db st) (meta_key key) = Some mb \<and> mb \<noteq> [] \<and>
        loads_meta c mb = Some m \<and> m_expires_at m \<le> now \<longrightarrow>
      CacheLayer_get c st key None ttl now na nb =
        (Inr None,
         st\<lparr>db := \<lparr>contents = kv_delete (kv_delete (contents (db st)) (cache_key key))
                                  (meta_key key),
                    calls = calls (db st) @ [Delete (cache_key key), Delete (meta_key key)]\<rparr>,
            misses := misses st + 1\<rparr>))"
proof (intro conjI impI)
  assume "db_get (db st) (cache_key key) = None \<or> db_get (db st) (cache_key key) = Some []"
  then show "CacheLayer_get c st key None ttl now na nb
             = (Inr None, st\<lparr>misses := misses st + 1\<rparr>)"
    by (simp add: get_value_absent get_miss_no_loader)
next
  assume a: "db_get (db st) (cache_key key) = Some vb \<and> vb \<noteq> [] \<and>
        db_get (db st) (meta_key key) = Some mb \<and> mb \<noteq> [] \<and>
        loads_meta c mb = Some m \<and> m_expires_at m \<le> now"
  then have "CacheLayer_get c st key None ttl now na nb =
         get_miss c (get_delete_pair st key) key None ttl na nb"
    using get_value_stale [of st key vb c now None ttl na nb] by auto
  then show "CacheLayer_get c st key None ttl now na nb =
        (Inr None,
         st\<lparr>db := \<lparr>contents = kv_delete (kv_delete (contents (db st)) (cache_key key))
                                  (meta_key key),
                    calls = calls (db st) @ [Delete (cache_key key), Delete (meta_key key)]\<rparr>,
            misses := misses st + 1\<rparr>)"
    by (simp add: get_miss_no_loader get_delete_pair_eq)
qed

theorem get_without_loader_writes_witness:
  "CacheLayer_get toy_codec empty_cache ''k'' None None 0 0 0
     = (Inr None, empty_cache\<lparr>misses := 1\<rparr>)
   \<and> CacheLayer_get toy_codec toy_cache ''k'' None None 2000000 0 0
     = (Inr None,
        toy_cache\<lparr>db := \<lparr>contents = [], calls = [Delete ''cache:k'', Delete ''meta:k'']\<rparr>,
                  misses := 1\<rparr>)"
  using get_without_loader_writes [where st = empty_cache and key = "''k''"
      and c = toy_codec and ttl = None and now = 0 and na = 0 and nb = 0]
    get_without_loader_writes [where st = toy_cache and key = "''k''"
      and c = toy_codec and ttl = None and now = 2000000 and na = 0 and nb = 0
      and vb = "''sv''" and mb = "''M''" and m = toy_meta]
  by (simp add: db_get_def kv_get_def kv_delete_def toy_defs)

text \<open>
  The claim C8 as stated fails on an expired entry: \<open>get\<close> with no loader returns absent
  and both records are deleted from the store.
\<close>

theorem get_on_expired_entry_deletes:
  "fst (CacheLayer_get toy_codec toy_cache ''k'' None None 3000000 0 0) = Inr None
   \<and> contents (db toy_cache) = [(''cache:k'', ''sv''), (''meta:k'', ''M'')]
   \<and> contents (db (snd (CacheLayer_get toy_codec toy_cache ''k'' None None 3000000 0 0))) = []
   \<and> calls (db (snd (CacheLayer_get toy_codec toy_cache ''k'' None None 3000000 0 0)))
     = calls (db toy_cache) @ [Delete ''cache:k'', Delete ''meta:k'']"
  by (simp add: get_defs kv_get_def kv_delete_def toy_defs)

section \<open>CacheLayer: where the code departs from the claims\<close>

text \<open>
  C2. The lazy-expiry path of \<open>get\<close> does not go through a batch: on an expired entry it
  issues two point deletes, and after the first of them the store holds \<open>meta:k\<close> without
  \<open>cache:k\<close>. \<open>delete\<close> removes the same pair in one batch.
\<close>

theorem get_expiry_deletes_outside_batch:
  "calls (db (snd (CacheLayer_get toy_codec toy_cache ''k'' None None 1500000 0 0)))
     = [Delete ''cache:k'', Delete ''meta:k'']
   \<and> db_get (db_delete (db toy_cache) (cache_key ''k'')) (cache_key ''k'') = None
   \<and> db_get (db_delete (db toy_cache) (cache_key ''k'')) (meta_key ''k'') = Some ''M''
   \<and> calls (db (CacheLayer_delete toy_cache ''k''))
     = [Commit [BDelete ''cache:k'', BDelete ''meta:k'']]"
  by (simp add: get_defs kv_get_def kv_delete_def toy_defs CacheLayer_delete_def db_batch_def)

text \<open>
  C3. \<open>clear_expired\<close> called at the instant an entry expires (\<open>expires_at = now\<close>)
  removes nothing and returns 0, while \<open>get\<close> at the same instant treats the entry as
  expired and removes it.
\<close>

theorem clear_expired_keeps_entry_expiring_now:
  "m_expires_at toy_meta = 1000000
   \<and> CacheLayer_clear_expired toy_codec toy_cache 1000000 = (Inr 0, toy_cache)
   \<and> fst (CacheLayer_get toy_codec toy_cache ''k'' None None 1000000 0 0) = Inr None
   \<and> contents (db (snd (CacheLayer_get toy_codec toy_cache ''k'' None None 1000000 0 0))) = []"
proof -
  have a: "CacheLayer_clear_expired toy_codec toy_cache 1000000 = (Inr 0, toy_cache)"
    unfolding CacheLayer_clear_expired_def scan_toy_cache
    by (simp add: startswith_def metadata_prefix_def toy_codec_def toy_meta_def)
  have b: "CacheLayer_get toy_codec toy_cache ''k'' None None 1000000 0 0 =
     (Inr None, toy_cache\<lparr>db := \<lparr>contents = [], calls = [Delete ''cache:k'', Delete ''meta:k'']\<rparr>,
                          misses := 1\<rparr>)"
    by (simp add: get_defs kv_get_def kv_delete_def toy_defs)
  show ?thesis
    using a b by (simp add: toy_meta_def)
qed

text \<open>
  C7. \<open>set\<close> with the explicit \<open>ttl = 0\<close> on a cache whose \<open>default_ttl\<close> is 3600 writes
  metadata with \<open>ttl = 3600\<close> and \<open>expires_at\<close> 3600 seconds after the clock reading.
\<close>

theorem set_ttl_zero_takes_default:
  "fst (CacheLayer_set c empty_cache ''k'' v (Some 0) 0 0) = Inr ()
   \<and> calls (db (snd (CacheLayer_set c empty_cache ''k'' v (Some 0) 0 0)))
     = [Commit [BPut ''cache:k'' (dumps c v),
                BPut ''meta:k'' (dumps_meta c \<lparr>m_key = ''k'', m_created_at = 0,
                    m_expires_at = 3600000000, m_ttl = 3600,
                    m_size_bytes = length (dumps c v)\<rparr>)]]"
  by (simp add: CacheLayer_set_def datetime_add_def valid_expiry_def datetime_min_def
      datetime_max_def db_batch_def ttl_or_default_def timedelta_seconds_def toy_defs Let_def)

section \<open>SessionStore: reading and updating a session\<close>

lemmas session_toy_defs = toy_sessions_def toy_session_codec_def toy_session_a_def
  toy_session_b_def session_key_def session_prefix_def












section \<open>The statistics are observations\<close>

text \<open>
  C9. \<open>CacheLayer.get_stats\<close> and \<open>SessionStore.get_stats\<close> leave the store and every
  counter as they were, whatever records their scans meet (and also when the scan of the
  cache meets a record that does not decode).
\<close>

theorem get_stats_pure:
  "snd (CacheLayer_get_stats c st memtable_size) = st
   \<and> snd (SessionStore_get_stats st' memtable_size' cache_entries) = st'"
  by (simp add: CacheLayer_get_stats_def SessionStore_get_stats_def Let_def
      split: sum.splits prod.splits)

section \<open>SessionStore: the operations keep the data model\<close>

text \<open>
  With a serializer that reads back what it writes, every operation of the session store
  leaves the keys of the store strictly ascending and every session record under the key
  of its own id.
\<close>

lemma sessions_keyed_subset:
  "sessions_keyed c s \<Longrightarrow> set s' \<subseteq> set s \<Longrightarrow> sessions_keyed c s'"
  by (auto simp: sessions_keyed_def)

lemma sessions_keyed_kv_set:
  assumes "sessions_keyed c s" and "session_round_trip c sd"
  shows "sessions_keyed c (kv_set s (session_key (s_session_id sd)) (dumps_session c sd))"
  unfolding sessions_keyed_def
proof (intro ballI allI impI)
  fix kv sd'
  assume mem: "kv \<in> set (kv_set s (session_key (s_session_id sd)) (dumps_session c sd))"
    and pre: "startswith (fst kv) session_prefix"
    and dec: "loads_session c (snd kv) = Some sd'"
  from mem set_kv_set
  have "kv = (session_key (s_session_id sd), dumps_session c sd) \<or> kv \<in> set s"
    by blast
  then show "fst kv = session_key (s_session_id sd')"
  proof
    assume "kv = (session_key (s_session_id sd), dumps_session c sd)"
    with dec assms(2) show ?thesis by (simp add: session_round_trip_def)
  next
    assume "kv \<in> set s"
    with assms(1) pre dec show ?thesis by (auto simp: sessions_keyed_def)
  qed
qed

lemma sessions_keyed_apply_deletes:
  "sessions_keyed c s \<Longrightarrow> sessions_keyed c (apply_batch s (map (\<lambda>sid. BDelete (f sid)) ids))"
proof (induction ids arbitrary: s)
  case Nil
  then show ?case by (simp add: apply_batch_Nil)
next
  case (Cons x ids)
  from Cons.prems have "sessions_keyed c (kv_delete s (f x))"
    by (rule sessions_keyed_subset) (rule set_kv_delete)
  from Cons.IH [OF this] show ?case by (simp add: apply_batch_Cons)
qed

lemma create_session_keeps_invariants:
  assumes "store_ok (contents (session_db st))"
    and "sessions_keyed c (contents (session_db st))"
    and "session_round_trip c \<lparr>s_session_id = token, s_user_id = user_id, s_created_at = now1,
           s_last_accessed = now2, s_data = (case data of None \<Rightarrow> Map.empty | Some d \<Rightarrow> d)\<rparr>"
  shows "store_ok (contents (session_db
           (snd (SessionStore_create_session c st token user_id data now1 now2))))
       \<and> sessions_keyed c (contents (session_db
           (snd (SessionStore_create_session c st token user_id data now1 now2))))"
  using store_ok_kv_set [OF assms(1)] sessions_keyed_kv_set [OF assms(2) assms(3)]
  by (simp add: SessionStore_create_session_def db_set_def Let_def)

lemma stored_session_id:
  assumes "sessions_keyed c (contents (session_db st))"
    and "db_get (session_db st) (session_key sid) = Some b"
    and "loads_session c b = Some sd"
  shows "s_session_id sd = sid"
proof -
  from assms(2) have "(session_key sid, b) \<in> set (contents (session_db st))"
    by (simp add: db_get_def kv_get_def map_of_SomeD)
  moreover have "startswith (session_key sid) session_prefix"
    by (simp add: startswith_def session_key_def)
  ultimately have "session_key sid = session_key (s_session_id sd)"
    using assms(1,3) by (fastforce simp: sessions_keyed_def)
  then show ?thesis by (simp add: session_key_def)
qed

lemma get_session_keeps_invariants:
  assumes ok: "store_ok (contents (session_db st))"
    and keyed: "sessions_keyed c (contents (session_db st))"
    and rt: "\<forall>sd. session_round_trip c sd"
  shows "store_ok (contents (session_db (snd (SessionStore_get_session c st sid now1 now2))))
       \<and> sessions_keyed c
           (contents (session_db (snd (SessionStore_get_session c st sid now1 now2))))"
proof (cases "db_get (session_db st) (session_key sid)")
  case None
  with ok keyed show ?thesis by (simp add: SessionStore_get_session_def)
next
  case (Some b)
  show ?thesis
  proof (cases "loads_session c b")
    case None
    with Some ok keyed show ?thesis by (simp add: SessionStore_get_session_def)
  next
    case (Some sd)
    from stored_session_id [OF keyed \<open>db_get (session_db st) (session_key sid) = Some b\<close> Some]
    have id: "s_session_id sd = sid" .
    from rt have "session_round_trip c (sd\<lparr>s_last_accessed := now2\<rparr>)" by simp
    from sessions_keyed_kv_set [OF keyed this] id
    have w: "sessions_keyed c (kv_set (contents (session_db st)) (session_key sid)
               (dumps_session c (sd\<lparr>s_last_accessed := now2\<rparr>)))"
      by simp
    from keyed have d: "sessions_keyed c (kv_delete (contents (session_db st)) (session_key sid))"
      by (rule sessions_keyed_subset) (rule set_kv_delete)
    from ok keyed w d Some \<open>db_get (session_db st) (session_key sid) = Some b\<close> show ?thesis
      by (simp add: SessionStore_get_session_def SessionStore_delete_session_def db_set_def
          db_delete_def store_ok_kv_set store_ok_kv_delete Let_def)
  qed
qed

lemma cleanup_keeps_invariants:
  assumes "store_ok (contents (session_db st))"
    and "sessions_keyed c (contents (session_db st))"
  shows "store_ok (contents (session_db
           (snd (SessionStore_cleanup_expired_sessions c st now))))
       \<and> sessions_keyed c (contents (session_db
           (snd (SessionStore_cleanup_expired_sessions c st now))))"
  using assms
  by (simp add: SessionStore_cleanup_expired_sessions_def db_batch_def store_ok_apply_batch
      sessions_keyed_apply_deletes split: sum.splits)


lemma get_session_returns_id:
  assumes "sessions_keyed c (contents (session_db st))"
    and "SessionStore_get_session c st sid now1 now2 = (Inr (Some r), st')"
  shows "s_session_id r = sid"
proof -
  from assms(2) obtain b sd where
    "db_get (session_db st) (session_key sid) = Some b" and "loads_session c b = Some sd"
    and "r = sd\<lparr>s_last_accessed := now2\<rparr>"
    by (auto simp: SessionStore_get_session_def Let_def split: option.splits if_splits)
  with stored_session_id [OF assms(1)] show ?thesis by simp
qed

lemma update_session_keeps_invariants:
  assumes ok: "store_ok (contents (session_db st))"
    and keyed: "sessions_keyed c (contents (session_db st))"
    and rt: "\<forall>sd. session_round_trip c sd"
  shows "store_ok (contents (session_db
           (snd (SessionStore_update_session c st sid data now1 now2 now3))))
       \<and> sessions_keyed c (contents (session_db
           (snd (SessionStore_update_session c st sid data now1 now2 now3))))"
proof -
  obtain res st' where g: "SessionStore_get_session c st sid now1 now2 = (res, st')"
    by (cases "SessionStore_get_session c st sid now1 now2")
  from get_session_keeps_invariants [OF ok keyed rt, of sid now1 now2] g
  have ok': "store_ok (contents (session_db st'))"
    and keyed': "sessions_keyed c (contents (session_db st'))"
    by simp_all
  show ?thesis
  proof (cases res)
    case (Inl e)
    with g ok' keyed' show ?thesis by (simp add: SessionStore_update_session_def)
  next
    case (Inr found)
    show ?thesis
    proof (cases found)
      case None
      with Inr g ok' keyed' show ?thesis by (simp add: SessionStore_update_session_def)
    next
      case (Some r)
      with Inr g have "s_session_id r = sid"
        using get_session_returns_id [OF keyed] by simp
      moreover from rt
      have "session_round_trip c (r\<lparr>s_data := s_data r ++ data, s_last_accessed := now3\<rparr>)"
        by simp
      ultimately
      have "sessions_keyed c (kv_set (contents (session_db st')) (session_key sid)
              (dumps_session c (r\<lparr>s_data := s_data r ++ data, s_last_accessed := now3\<rparr>)))"
        using sessions_keyed_kv_set [OF keyed', of "r\<lparr>s_data := s_data r ++ data,
            s_last_accessed := now3\<rparr>"] by simp
      with Some Inr g ok' show ?thesis
        by (simp add: SessionStore_update_session_def db_set_def store_ok_kv_set Let_def)
    qed
  qed
qed

section \<open>SessionStore: the sweep of expired sessions\<close>

lemma collect_expired_sessions_sound:
  "collect_expired_sessions c ttl now xs = Inr ids \<Longrightarrow> sid \<in> set ids \<Longrightarrow>
   \<exists>k b sd. (k, b) \<in> set xs \<and> startswith k session_prefix \<and> loads_session c b = Some sd \<and>
     s_session_id sd = sid \<and> now - s_last_accessed sd > timedelta_seconds ttl"
proof (induction xs arbitrary: ids)
  case Nil
  then show ?case by simp
next
  case (Cons x xs)
  obtain k v where x: "x = (k, v)" by (cases x)
  show ?case
  proof (cases "startswith k session_prefix")
    case False
    with Cons.prems x show ?thesis by simp
  next
    case True
    with Cons.prems x obtain sd ids' where
      sd: "loads_session c v = Some sd" and
      rest: "collect_expired_sessions c ttl now xs = Inr ids'" and
      ids: "ids = (if now - s_last_accessed sd > timedelta_seconds ttl
                   then s_session_id sd # ids' else ids')"
      by (auto split: option.splits sum.splits)
    show ?thesis
    proof (cases "sid \<in> set ids'")
      case True
      from Cons.IH [OF rest True] show ?thesis by auto
    next
      case False
      with Cons.prems(2) ids have "now - s_last_accessed sd > timedelta_seconds ttl"
        and "s_session_id sd = sid"
        by (auto split: if_splits)
      with sd x \<open>startswith k session_prefix\<close> show ?thesis by auto
    qed
  qed
qed

lemma kv_get_apply_deletes:
  "kv_get (apply_batch s (map (\<lambda>sid. BDelete (f sid)) ids)) k =
     (if k \<in> f ` set ids then None else kv_get s k)"
  by (induction ids arbitrary: s) (auto simp: apply_batch_Nil apply_batch_Cons kv_get_kv_delete)

lemma store_ok_kv_get:
  assumes "store_ok s" and "(k, b) \<in> set s"
  shows "kv_get s k = Some b"
proof -
  from assms(1) have "distinct (map fst s)"
    by (simp add: store_ok_def strict_sorted_iff)
  with assms(2) show ?thesis
    by (simp add: kv_get_def)
qed

lemma kv_scan_subset: "set (kv_scan s p) \<subseteq> set s"
  by (auto simp: kv_scan_def)

lemma cleanup_lookup:
  assumes ok: "store_ok (contents (session_db st))"
    and keyed: "sessions_keyed c (contents (session_db st))"
  shows "db_get (session_db (snd (SessionStore_cleanup_expired_sessions c st now))) k
           = db_get (session_db st) k
         \<or> (db_get (session_db (snd (SessionStore_cleanup_expired_sessions c st now))) k = None
            \<and> (\<exists>b sd. db_get (session_db st) k = Some b \<and> startswith k session_prefix \<and>
                  loads_session c b = Some sd \<and>
                  now - s_last_accessed sd > timedelta_seconds (ttl_seconds st)))"
proof (cases "collect_expired_sessions c (ttl_seconds st) now
                (db_scan (session_db st) session_prefix)")
  case (Inl e)
  then show ?thesis by (simp add: SessionStore_cleanup_expired_sessions_def)
next
  case (Inr ids)
  show ?thesis
  proof (cases "k \<in> session_key ` set ids")
    case False
    with Inr show ?thesis
      by (simp add: SessionStore_cleanup_expired_sessions_def db_batch_def db_get_def
          kv_get_apply_deletes)
  next
    case True
    then obtain sid where sid: "sid \<in> set ids" and k: "k = session_key sid" by auto
    from collect_expired_sessions_sound [OF Inr sid] obtain k' b sd where
      mem: "(k', b) \<in> set (db_scan (session_db st) session_prefix)" and
      pre: "startswith k' session_prefix" and
      sd: "loads_session c b = Some sd" and
      id: "s_session_id sd = sid" and
      ex: "now - s_last_accessed sd > timedelta_seconds (ttl_seconds st)"
      by blast
    from mem have mem': "(k', b) \<in> set (contents (session_db st))"
      using kv_scan_subset by (auto simp: db_scan_def)
    with keyed pre sd have "k' = session_key (s_session_id sd)"
      by (fastforce simp: sessions_keyed_def)
    with id k have "k' = k" by simp
    with mem' ok have "db_get (session_db st) k = Some b"
      by (simp add: db_get_def store_ok_kv_get)
    moreover from True Inr sid
    have "db_get (session_db (snd (SessionStore_cleanup_expired_sessions c st now))) k = None"
      by (auto simp: SessionStore_cleanup_expired_sessions_def db_batch_def db_get_def
          kv_get_apply_deletes)
    ultimately show ?thesis
      using pre sd ex \<open>k' = k\<close> by auto
  qed
qed

text \<open>
  C10. On a store that keeps every session record under the key of its own id,
  \<open>cleanup_expired_sessions\<close> deletes only session records with
  \<open>now - last_accessed > ttl_seconds\<close>: every record that decodes to a live session is
  found under its key afterwards with the very bytes it had, so its \<open>last_accessed\<close> is
  not refreshed, and a key whose lookup has changed held an expired session record and
  now holds nothing.
\<close>

theorem cleanup_keeps_live_sessions:
  assumes "store_ok (contents (session_db st))"
    and "sessions_keyed c (contents (session_db st))"
  shows "(\<forall>k b sd. db_get (session_db st) k = Some b \<and> loads_session c b = Some sd \<and>
            now - s_last_accessed sd \<le> timedelta_seconds (ttl_seconds st) \<longrightarrow>
            db_get (session_db (snd (SessionStore_cleanup_expired_sessions c st now))) k = Some b)
       \<and> (\<forall>k. db_get (session_db (snd (SessionStore_cleanup_expired_sessions c st now))) k
                 \<noteq> db_get (session_db st) k \<longrightarrow>
              db_get (session_db (snd (SessionStore_cleanup_expired_sessions c st now))) k = None
              \<and> (\<exists>b sd. db_get (session_db st) k = Some b \<and> startswith k session_prefix \<and>
                    loads_session c b = Some sd \<and>
                    now - s_last_accessed sd > timedelta_seconds (ttl_seconds st)))"
proof (intro conjI allI impI)
  fix k b sd
  assume a: "db_get (session_db st) k = Some b \<and> loads_session c b = Some sd \<and>
            now - s_last_accessed sd \<le> timedelta_seconds (ttl_seconds st)"
  from cleanup_lookup [OF assms, of now k] a
  show "db_get (session_db (snd (SessionStore_cleanup_expired_sessions c st now))) k = Some b"
    by auto
next
  fix k
  assume a: "db_get (session_db (snd (SessionStore_cleanup_expired_sessions c st now))) k
                 \<noteq> db_get (session_db st) k"
  from cleanup_lookup [OF assms, of now k] a
  show "db_get (session_db (snd (SessionStore_cleanup_expired_sessions c st now))) k = None"
    by auto
  from cleanup_lookup [OF assms, of now k] a
  show "\<exists>b sd. db_get (session_db st) k = Some b \<and> startswith k session_prefix \<and>
                    loads_session c b = Some sd \<and>
                    now - s_last_accessed sd > timedelta_seconds (ttl_seconds st)"
    by auto
qed

lemma toy_sessions_ok: "store_ok (contents (session_db toy_sessions))"
  by (simp add: store_ok_def toy_sessions_def)

lemma toy_sessions_keyed: "sessions_keyed toy_session_codec (contents (session_db toy_sessions))"
  by (simp add: sessions_keyed_def session_toy_defs)

lemma toy_cleanup: "SessionStore_cleanup_expired_sessions toy_session_codec toy_sessions 25000000 =
    (Inr 1, toy_sessions\<lparr>session_db := \<lparr>contents = [(''session:b'', ''S:b'')],
                                      calls = [Commit [BDelete ''session:a'']]\<rparr>\<rparr>)"
  by (simp add: SessionStore_cleanup_expired_sessions_def db_scan_def kv_scan_def db_batch_def
       apply_batch_def kv_delete_def startswith_def timedelta_seconds_def session_toy_defs)


theorem cleanup_keeps_live_sessions_witness:
  "store_ok (contents (session_db toy_sessions))
   \<and> sessions_keyed toy_session_codec (contents (session_db toy_sessions))
   \<and> db_get (session_db toy_sessions) ''session:b'' = Some ''S:b''
   \<and> db_get (session_db (snd (SessionStore_cleanup_expired_sessions toy_session_codec
                                 toy_sessions 25000000))) ''session:b'' = Some ''S:b''
   \<and> db_get (session_db (snd (SessionStore_cleanup_expired_sessions toy_session_codec
                                 toy_sessions 25000000))) ''session:a'' = None"
proof -
  have live: "db_get (session_db toy_sessions) ''session:b'' = Some ''S:b'' \<and>
      loads_session toy_session_codec ''S:b'' = Some toy_session_b \<and>
      25000000 - s_last_accessed toy_session_b \<le> timedelta_seconds (ttl_seconds toy_sessions)"
    by (simp add: db_get_def kv_get_def timedelta_seconds_def session_toy_defs)
  from cleanup_keeps_live_sessions [OF toy_sessions_ok toy_sessions_keyed, of 25000000] live
  have "db_get (session_db (snd (SessionStore_cleanup_expired_sessions toy_session_codec
                                 toy_sessions 25000000))) ''session:b'' = Some ''S:b''"
    by blast
  moreover
  have "db_get (session_db (snd (SessionStore_cleanup_expired_sessions toy_session_codec
                                 toy_sessions 25000000))) ''session:a'' = None"
    by (simp add: toy_cleanup db_get_def kv_get_def)
  ultimately show ?thesis
    using toy_sessions_ok toy_sessions_keyed live by simp
qed

end
